theory Spec2Isabelle
  imports Complex_Main "HOL-Library.Product_Lexorder" "HOL-Library.Multiset"
begin

section \<open>Options pipeline of \<^verbatim>\<open>investor_agent/yfinance_utils.py\<close>\<close>

text \<open>
  The module is a facade over the yfinance client. This theory embeds its two options
  functions, \<^verbatim>\<open>get_options_chain\<close> (lines 122-148) and \<^verbatim>\<open>get_filtered_options\<close>
  (lines 150-227), together with the library calls they depend on.

  Conventions of the embedding:
  \<^item> a \<^verbatim>\<open>str | None\<close> argument is a \<open>string option\<close>; Python's truth test on it
    (\<^verbatim>\<open>if start_date:\<close>, \<^verbatim>\<open>if not expiry:\<close>, \<^verbatim>\<open>if error:\<close>) is \<open>truthy\<close>, false on
    \<^verbatim>\<open>None\<close> and on the empty string;
  \<^item> a \<^verbatim>\<open>DataFrame\<close> is the list of its rows, in index order;
  \<^item> a raised exception is the value \<open>Inl text\<close>, where \<open>text\<close> is what \<^verbatim>\<open>str(e)\<close>
    gives in the handler; \<^verbatim>\<open>except Exception\<close> is a case distinction on it;
  \<^item> every request handed to the yfinance client is appended to a history, and the
    client's answer may depend on the history so far (remote data, cache, limiter);
  \<^item> strings are ASCII, numbers are exact (no NaN, no rounding).
\<close>

subsection \<open>Python's truth test on an optional string\<close>

fun truthy :: "string option \<Rightarrow> bool" where
  "truthy None = False"
| "truthy (Some s) = (s \<noteq> [])"

subsection \<open>\<^verbatim>\<open>datetime.strptime(s, "%Y-%m-%d").date()\<close>\<close>

text \<open>
  CPython turns the format into the regular expression
  \<^verbatim>\<open>(?P<Y>\d\d\d\d)-(?P<m>1[0-2]|0[1-9]|[1-9])-(?P<d>3[0-1]|[1-2]\d|0[1-9]|[1-9]| [1-9])\<close>,
  matches it at the start of the string, raises \<^verbatim>\<open>ValueError\<close> when it does not match or
  when characters remain after the match, and then builds the date, which raises
  \<^verbatim>\<open>ValueError\<close> for year 0 and for a day beyond the month's length. The alternatives of
  a group are tried in order. A later alternative of the month group can only succeed where
  the earlier ones do not match at all (it needs the dash one character earlier), and
  nothing follows the day group, so taking the first alternative that matches is exact.
  \<open>None\<close> stands for the \<^verbatim>\<open>ValueError\<close>.
\<close>

type_synonym date = "nat \<times> nat \<times> nat"

definition digit_of :: "char \<Rightarrow> nat option" where
  "digit_of c = map_of (zip ''0123456789'' [0 ..< 10]) c"

fun parse_year :: "string \<Rightarrow> (nat \<times> string) option" where
  "parse_year (a # b # c # d # rest) =
     (case (digit_of a, digit_of b, digit_of c, digit_of d) of
        (Some a', Some b', Some c', Some d') \<Rightarrow>
          Some (1000 * a' + 100 * b' + 10 * c' + d', rest)
      | _ \<Rightarrow> None)"
| "parse_year _ = None"

fun parse_dash :: "string \<Rightarrow> string option" where
  "parse_dash (c # rest) = (if c = CHR ''-'' then Some rest else None)"
| "parse_dash [] = None"

fun parse_month :: "string \<Rightarrow> (nat \<times> string) option" where
  "parse_month (a # b # rest) =
     (case (digit_of a, digit_of b) of
        (Some a', Some b') \<Rightarrow>
          if a' = 1 \<and> b' \<le> 2 then Some (10 + b', rest)
          else if a' = 0 \<and> 1 \<le> b' then Some (b', rest)
          else if 1 \<le> a' then Some (a', b # rest)
          else None
      | (Some a', None) \<Rightarrow> if 1 \<le> a' then Some (a', b # rest) else None
      | _ \<Rightarrow> None)"
| "parse_month [a] =
     (case digit_of a of Some a' \<Rightarrow> if 1 \<le> a' then Some (a', []) else None | None \<Rightarrow> None)"
| "parse_month [] = None"

fun parse_day :: "string \<Rightarrow> (nat \<times> string) option" where
  "parse_day (a # b # rest) =
     (case (digit_of a, digit_of b) of
        (Some a', Some b') \<Rightarrow>
          if a' = 3 \<and> b' \<le> 1 then Some (30 + b', rest)
          else if 1 \<le> a' \<and> a' \<le> 2 then Some (10 * a' + b', rest)
          else if a' = 0 \<and> 1 \<le> b' then Some (b', rest)
          else if 1 \<le> a' then Some (a', b # rest)
          else None
      | (Some a', None) \<Rightarrow> if 1 \<le> a' then Some (a', b # rest) else None
      | (None, Some b') \<Rightarrow> if a = CHR '' '' \<and> 1 \<le> b' then Some (b', rest) else None
      | _ \<Rightarrow> None)"
| "parse_day [a] =
     (case digit_of a of Some a' \<Rightarrow> if 1 \<le> a' then Some (a', []) else None | None \<Rightarrow> None)"
| "parse_day [] = None"

definition is_leap :: "nat \<Rightarrow> bool" where
  "is_leap y = (y mod 4 = 0 \<and> (y mod 100 \<noteq> 0 \<or> y mod 400 = 0))"

definition days_in_month :: "nat \<Rightarrow> nat \<Rightarrow> nat" where
  "days_in_month y m =
     (if m = 2 then (if is_leap y then 29 else 28)
      else if m = 4 \<or> m = 6 \<or> m = 9 \<or> m = 11 then 30 else 31)"

definition strptime :: "string \<Rightarrow> date option" where
  "strptime s =
     (case parse_year s of
        None \<Rightarrow> None
      | Some (y, r1) \<Rightarrow>
          (case parse_dash r1 of
             None \<Rightarrow> None
           | Some r2 \<Rightarrow>
               (case parse_month r2 of
                  None \<Rightarrow> None
                | Some (m, r3) \<Rightarrow>
                    (case parse_dash r3 of
                       None \<Rightarrow> None
                     | Some r4 \<Rightarrow>
                         (case parse_day r4 of
                            None \<Rightarrow> None
                          | Some (d, r5) \<Rightarrow>
                              if r5 = [] \<and> 1 \<le> y \<and> d \<le> days_in_month y m
                              then Some (y, m, d) else None)))))"

subsection \<open>Rows, chains and the yfinance client\<close>

text \<open>
  A row of an options table: the columns the module reads (\<^verbatim>\<open>strike\<close>,
  \<^verbatim>\<open>openInterest\<close>, \<^verbatim>\<open>volume\<close>), the contract symbol that identifies the row, and
  the column \<^verbatim>\<open>expiryDate\<close> that \<^verbatim>\<open>assign\<close> adds (absent in what the client returns).
\<close>

record option_row =
  contractSymbol :: string
  strike :: real
  openInterest :: int
  volume :: int
  expiryDate :: "string option"

type_synonym dataframe = "option_row list"

record chain =
  calls :: dataframe
  puts :: dataframe

datatype request = OptionsRequest string | ChainRequest string string

text \<open>
  What the module calls and does not define: \<^verbatim>\<open>yf.Ticker(ticker, session).options\<close>,
  \<^verbatim>\<open>yf.Ticker(ticker, session).option_chain(expiry)\<close>, each answering from the history
  of requests so far with a value or with a raised exception (\<open>Inl\<close> of its text), and the
  text of the \<^verbatim>\<open>ValueError\<close> that \<^verbatim>\<open>strptime\<close> raises on a string it rejects.
\<close>

record env =
  options :: "request list \<Rightarrow> string \<Rightarrow> string + string list"
  option_chain :: "request list \<Rightarrow> string \<Rightarrow> string \<Rightarrow> string + chain"
  strptime_error :: "string \<Rightarrow> string"

type_synonym outcome = "dataframe option \<times> string option"

subsection \<open>\<^verbatim>\<open>get_options_chain\<close> (lines 122-148)\<close>

text \<open>The \<^verbatim>\<open>try\<close> block, lines 135-144; \<open>Inl\<close> is an exception leaving the block.\<close>

definition get_options_chain_try ::
  "env \<Rightarrow> request list \<Rightarrow> string \<Rightarrow> string option \<Rightarrow> string option
     \<Rightarrow> (string + outcome) \<times> request list" where
  "get_options_chain_try E h ticker expiry option_type =
     (if \<not> truthy expiry then (Inr (None, Some ''No expiry date provided''), h)
      else
        (case option_chain E h ticker (the expiry) of
           Inl e \<Rightarrow> (Inl e, h @ [ChainRequest ticker (the expiry)])
         | Inr c \<Rightarrow>
             (Inr (if option_type = Some ''C'' then (Some (calls c), None)
                   else if option_type = Some ''P'' then (Some (puts c), None)
                   else (Some (calls c @ puts c), None)),
              h @ [ChainRequest ticker (the expiry)])))"

text \<open>The function: the block under its handler \<^verbatim>\<open>except Exception as e\<close>, lines 146-148.\<close>

definition get_options_chain ::
  "env \<Rightarrow> request list \<Rightarrow> string \<Rightarrow> string option \<Rightarrow> string option
     \<Rightarrow> outcome \<times> request list" where
  "get_options_chain E h ticker expiry option_type =
     (case get_options_chain_try E h ticker expiry option_type of
        (Inl e, h') \<Rightarrow> ((None, Some e), h')
      | (Inr r, h') \<Rightarrow> (r, h'))"

subsection \<open>\<^verbatim>\<open>get_filtered_options\<close> (lines 150-227)\<close>

text \<open>
  Lines 161-171: each date that is given must parse; the inner handlers turn the
  \<^verbatim>\<open>ValueError\<close> into the returned message.
\<close>

definition validate_dates :: "string option \<Rightarrow> string option \<Rightarrow> string option" where
  "validate_dates start_date end_date =
     (if truthy start_date \<and> strptime (the start_date) = None
      then Some ''Invalid start_date format. Use YYYY-MM-DD''
      else if truthy end_date \<and> strptime (the end_date) = None
      then Some ''Invalid end_date format. Use YYYY-MM-DD''
      else None)"

text \<open>Lines 180-181: \<^verbatim>\<open>strptime(d, ...).date() if d else None\<close>.\<close>

definition date_obj :: "string option \<Rightarrow> date option" where
  "date_obj d = (if truthy d then strptime (the d) else None)"

text \<open>Line 187-188: the test of one expiration against the optional bounds.\<close>

definition in_range :: "date option \<Rightarrow> date option \<Rightarrow> date \<Rightarrow> bool" where
  "in_range start_date_obj end_date_obj exp_date =
     ((case start_date_obj of None \<Rightarrow> True | Some s \<Rightarrow> s \<le> exp_date) \<and>
      (case end_date_obj of None \<Rightarrow> True | Some e \<Rightarrow> exp_date \<le> e))"

text \<open>
  Lines 184-189: the loop over the client's expirations. An expiration that does not parse
  raises \<^verbatim>\<open>ValueError\<close> out of the loop (the first such one, in list order).
\<close>

fun select_expirations ::
  "env \<Rightarrow> date option \<Rightarrow> date option \<Rightarrow> string list \<Rightarrow> string + string list" where
  "select_expirations E s e [] = Inr []"
| "select_expirations E s e (x # xs) =
     (case strptime x of
        None \<Rightarrow> Inl (strptime_error E x)
      | Some exp_date \<Rightarrow>
          (case select_expirations E s e xs of
             Inl err \<Rightarrow> Inl err
           | Inr rest \<Rightarrow> Inr (if in_range s e exp_date then x # rest else rest)))"

text \<open>
  Lines 196-200: \<^verbatim>\<open>executor.map\<close> calls \<^verbatim>\<open>get_options_chain\<close> once per selected
  expiration and returns the outcomes in the order of the expirations. The requests are
  recorded in that order.
\<close>

fun fetch_chains ::
  "env \<Rightarrow> request list \<Rightarrow> string \<Rightarrow> string list \<Rightarrow> string option
     \<Rightarrow> outcome list \<times> request list" where
  "fetch_chains E h ticker [] option_type = ([], h)"
| "fetch_chains E h ticker (x # xs) option_type =
     (case get_options_chain E h ticker (Some x) option_type of
        (r, h1) \<Rightarrow>
          (case fetch_chains E h1 ticker xs option_type of
             (rs, h2) \<Rightarrow> (r # rs, h2)))"

text \<open>
  Lines 202-207: the loop over \<^verbatim>\<open>zip(options_results, valid_expirations)\<close>; an outcome
  with an error text is skipped, a chain is kept with \<^verbatim>\<open>expiryDate\<close> assigned.
\<close>

definition assign_expiryDate :: "string \<Rightarrow> dataframe \<Rightarrow> dataframe" where
  "assign_expiryDate expiry c = map (\<lambda>r. r\<lparr>expiryDate := Some expiry\<rparr>) c"

fun collect_chains :: "(outcome \<times> string) list \<Rightarrow> dataframe list" where
  "collect_chains [] = []"
| "collect_chains (((c, error), expiry) # rest) =
     (if truthy error then collect_chains rest
      else (case c of
              Some rows \<Rightarrow> assign_expiryDate expiry rows # collect_chains rest
            | None \<Rightarrow> collect_chains rest))"

text \<open>Lines 215-221: the strike mask.\<close>

definition strike_mask :: "real option \<Rightarrow> real option \<Rightarrow> option_row \<Rightarrow> bool" where
  "strike_mask strike_lower strike_upper r =
     ((case strike_lower of None \<Rightarrow> True | Some lo \<Rightarrow> lo \<le> strike r) \<and>
      (case strike_upper of None \<Rightarrow> True | Some hi \<Rightarrow> strike r \<le> hi))"

definition apply_strike_filters :: "real option \<Rightarrow> real option \<Rightarrow> dataframe \<Rightarrow> dataframe" where
  "apply_strike_filters strike_lower strike_upper df = filter (strike_mask strike_lower strike_upper) df"

text \<open>
  Line 223: \<^verbatim>\<open>sort_values(['openInterest', 'volume'], ascending=[False, False])\<close>. With
  several columns pandas sorts lexicographically on the columns, each reversed for
  descending order, and keeps rows with equal keys in their order in the frame.
\<close>

definition sort_values :: "dataframe \<Rightarrow> dataframe" where
  "sort_values df = sort_key (\<lambda>r. (- openInterest r, - volume r)) df"

text \<open>Lines 209-223: from the outcomes of the fetches to the returned pair.\<close>

definition aggregate ::
  "string \<Rightarrow> real option \<Rightarrow> real option \<Rightarrow> outcome list \<Rightarrow> string list \<Rightarrow> outcome" where
  "aggregate ticker strike_lower strike_upper options_results valid_expirations =
     (let filtered_option_chains = collect_chains (zip options_results valid_expirations) in
      if filtered_option_chains = []
      then (None, Some (''No options found for '' @ ticker @ '' matching criteria''))
      else (Some (sort_values
                    (apply_strike_filters strike_lower strike_upper
                       (concat filtered_option_chains))), None))"

text \<open>The \<^verbatim>\<open>try\<close> block, lines 160-223.\<close>

definition get_filtered_options_try ::
  "env \<Rightarrow> request list \<Rightarrow> string \<Rightarrow> string option \<Rightarrow> string option
     \<Rightarrow> real option \<Rightarrow> real option \<Rightarrow> string option
     \<Rightarrow> (string + outcome) \<times> request list" where
  "get_filtered_options_try E h ticker start_date end_date strike_lower strike_upper option_type =
     (case validate_dates start_date end_date of
        Some msg \<Rightarrow> (Inr (None, Some msg), h)
      | None \<Rightarrow>
          (case options E h ticker of
             Inl e \<Rightarrow> (Inl e, h @ [OptionsRequest ticker])
           | Inr expirations \<Rightarrow>
               if expirations = []
               then (Inr (None, Some (''No options available for '' @ ticker)),
                     h @ [OptionsRequest ticker])
               else
                 (case select_expirations E (date_obj start_date) (date_obj end_date)
                         expirations of
                    Inl e \<Rightarrow> (Inl e, h @ [OptionsRequest ticker])
                  | Inr valid_expirations \<Rightarrow>
                      if valid_expirations = []
                      then (Inr (None, Some (''No options found for '' @ ticker @
                                             '' within specified date range'')),
                            h @ [OptionsRequest ticker])
                      else
                        (case fetch_chains E (h @ [OptionsRequest ticker]) ticker
                                valid_expirations option_type of
                           (options_results, h') \<Rightarrow>
                             (Inr (aggregate ticker strike_lower strike_upper
                                     options_results valid_expirations), h')))))"

text \<open>The function: the block under its handler \<^verbatim>\<open>except Exception as e\<close>, lines 225-227.\<close>

definition get_filtered_options ::
  "env \<Rightarrow> request list \<Rightarrow> string \<Rightarrow> string option \<Rightarrow> string option
     \<Rightarrow> real option \<Rightarrow> real option \<Rightarrow> string option
     \<Rightarrow> outcome \<times> request list" where
  "get_filtered_options E h ticker start_date end_date strike_lower strike_upper option_type =
     (case get_filtered_options_try E h ticker start_date end_date
             strike_lower strike_upper option_type of
        (Inl e, h') \<Rightarrow> ((None, Some (''Failed to retrieve options data: '' @ e)), h')
      | (Inr r, h') \<Rightarrow> (r, h'))"

subsection \<open>A small client for running the model\<close>

definition mk_row :: "string \<Rightarrow> real \<Rightarrow> int \<Rightarrow> int \<Rightarrow> option_row" where
  "mk_row name k oi vol =
     \<lparr>contractSymbol = name, strike = k, openInterest = oi, volume = vol, expiryDate = None\<rparr>"

definition feb_chain :: chain where
  "feb_chain = \<lparr>calls = [mk_row ''c1'' 100 5 7, mk_row ''c2'' 125 9 1],
                puts = [mk_row ''p1'' 90 5 7]\<rparr>"

definition sample_env :: env where
  "sample_env =
     \<lparr>options = (\<lambda>h t. if t = ''ACME''
                         then Inr [''2025-01-17'', ''2025-02-21'', ''2025-03-21'']
                         else Inl ''no such ticker''),
      option_chain = (\<lambda>h t e. if e = ''2025-02-21'' then Inr feb_chain
                               else Inl ''chain unavailable''),
      strptime_error = (\<lambda>s. ''time data does not match format'')\<rparr>"



section \<open>Properties\<close>

subsection \<open>Evaluating the date parser\<close>



lemma strptime_feb01: "strptime ''2025-02-01'' = Some (2025, 2, 1)"
  by code_simp

text \<open>
  The parser is the one of \<^verbatim>\<open>strptime\<close>, not a test of the shape
  \<^verbatim>\<open>dddd-dd-dd\<close>: a month or a day of one digit parses.
\<close>

lemma strptime_one_digit: "strptime ''2025-1-5'' = Some (2025, 1, 5)"
  by code_simp

subsection \<open>\<^verbatim>\<open>get_options_chain\<close>\<close>

lemma get_options_chain_cases:
  "get_options_chain E h t x ot =
     (if \<not> truthy x then ((None, Some ''No expiry date provided''), h)
      else (case option_chain E h t (the x) of
              Inl e \<Rightarrow> ((None, Some e), h @ [ChainRequest t (the x)])
            | Inr c \<Rightarrow>
                ((Some (if ot = Some ''C'' then calls c
                        else if ot = Some ''P'' then puts c
                        else calls c @ puts c), None),
                 h @ [ChainRequest t (the x)])))"
  by (simp add: get_options_chain_def get_options_chain_try_def split: sum.split)

lemma sample_chain: "option_chain sample_env h ''ACME'' ''2025-02-21'' = Inr feb_chain"
  by (simp add: sample_env_def)

text \<open>
  Claim C10. Called with the expiry absent, as \<^verbatim>\<open>None\<close> or as the empty string,
  \<^verbatim>\<open>get_options_chain\<close> returns no data and the message
  \<^verbatim>\<open>No expiry date provided\<close>, for every ticker and option type, and the history of
  requests is the one it started from: the client is not called.
\<close>

theorem no_expiry_no_request:
  "get_options_chain E h ticker None option_type =
     ((None, Some ''No expiry date provided''), h) \<and>
   get_options_chain E h ticker (Some '''') option_type =
     ((None, Some ''No expiry date provided''), h)"
  by (simp add: get_options_chain_cases)

theorem no_expiry_no_request_witness:
  "get_options_chain sample_env [] ''ACME'' (Some '''') (Some ''C'') =
     ((None, Some ''No expiry date provided''), [])"
  using no_expiry_no_request [of sample_env "[]" "''ACME''" "Some ''C''"] by simp

text \<open>
  Claim C7. When an expiry is given and the client answers with a chain, option type
  \<^verbatim>\<open>"C"\<close> returns the chain's calls, \<^verbatim>\<open>"P"\<close> its puts, and no option type the
  calls followed by the puts.
\<close>

theorem option_type_side:
  assumes "truthy expiry" and "option_chain E h ticker (the expiry) = Inr c"
  shows "fst (get_options_chain E h ticker expiry (Some ''C'')) = (Some (calls c), None) \<and>
         fst (get_options_chain E h ticker expiry (Some ''P'')) = (Some (puts c), None) \<and>
         fst (get_options_chain E h ticker expiry None) = (Some (calls c @ puts c), None)"
  using assms by (simp add: get_options_chain_cases)

theorem option_type_side_witness:
  "fst (get_options_chain sample_env [] ''ACME'' (Some ''2025-02-21'') (Some ''C'')) =
     (Some [mk_row ''c1'' 100 5 7, mk_row ''c2'' 125 9 1], None) \<and>
   fst (get_options_chain sample_env [] ''ACME'' (Some ''2025-02-21'') (Some ''P'')) =
     (Some [mk_row ''p1'' 90 5 7], None) \<and>
   fst (get_options_chain sample_env [] ''ACME'' (Some ''2025-02-21'') None) =
     (Some [mk_row ''c1'' 100 5 7, mk_row ''c2'' 125 9 1, mk_row ''p1'' 90 5 7], None)"
  using option_type_side [of "Some ''2025-02-21''" sample_env "[]" "''ACME''" feb_chain]
  by (simp add: sample_chain feb_chain_def)

subsection \<open>Date validation\<close>




subsection \<open>Selecting the expirations\<close>

lemma strptime_jan17: "strptime ''2025-01-17'' = Some (2025, 1, 17)"
  by code_simp

lemma strptime_feb21: "strptime ''2025-02-21'' = Some (2025, 2, 21)"
  by code_simp

lemma strptime_mar21: "strptime ''2025-03-21'' = Some (2025, 3, 21)"
  by code_simp

lemma strptime_mar31: "strptime ''2025-03-31'' = Some (2025, 3, 31)"
  by code_simp


lemma sample_options:
  "options sample_env h ''ACME'' = Inr [''2025-01-17'', ''2025-02-21'', ''2025-03-21'']"
  by (simp add: sample_env_def)

lemma strptime_nonempty: "strptime x \<noteq> None \<Longrightarrow> x \<noteq> []"
  by (auto simp: strptime_def)

text \<open>When every expiration parses, the loop is a filter: nothing is raised, order is kept.\<close>

lemma select_expirations_filter:
  "\<forall>x\<in>set xs. strptime x \<noteq> None \<Longrightarrow>
   select_expirations E s e xs = Inr (filter (\<lambda>x. in_range s e (the (strptime x))) xs)"
  by (induction xs) auto

lemma in_range_date_obj:
  assumes "validate_dates sd ed = None"
  shows "in_range (date_obj sd) (date_obj ed) d =
           ((truthy sd \<longrightarrow> the (strptime (the sd)) \<le> d) \<and>
            (truthy ed \<longrightarrow> d \<le> the (strptime (the ed))))"
  using assms
  by (auto simp: in_range_def date_obj_def validate_dates_def split: if_splits option.splits)

lemma fetch_chains_Cons:
  "fetch_chains E h t (x # xs) ot =
     (fst (get_options_chain E h t (Some x) ot) #
        fst (fetch_chains E (snd (get_options_chain E h t (Some x) ot)) t xs ot),
      snd (fetch_chains E (snd (get_options_chain E h t (Some x) ot)) t xs ot))"
  by (simp split: prod.split)

lemma get_options_chain_history:
  "x \<noteq> [] \<Longrightarrow> snd (get_options_chain E h t (Some x) ot) = h @ [ChainRequest t x]"
  by (simp add: get_options_chain_cases split: sum.split)

text \<open>One chain request per selected expiration, in the order of the selection.\<close>

lemma fetch_chains_history:
  "\<forall>x\<in>set xs. x \<noteq> [] \<Longrightarrow>
   snd (fetch_chains E h t xs ot) = h @ map (ChainRequest t) xs"
proof (induction xs arbitrary: h)
  case Nil
  then show ?case by simp
next
  case (Cons x xs)
  then show ?case
    by (simp only: fetch_chains_Cons snd_conv) (simp add: get_options_chain_history)
qed

lemma fetch_chains_length: "length (fst (fetch_chains E h t xs ot)) = length xs"
proof (induction xs arbitrary: h)
  case Nil
  then show ?case by simp
next
  case (Cons x xs)
  then show ?case by (simp only: fetch_chains_Cons fst_conv) simp
qed

text \<open>
  The call once the dates are valid, the client has listed expirations and the loop has
  selected some of them.
\<close>

lemma get_filtered_options_selected:
  assumes "validate_dates sd ed = None" and "options E h t = Inr xs" and "xs \<noteq> []"
    and "select_expirations E (date_obj sd) (date_obj ed) xs = Inr valid"
  shows "get_filtered_options E h t sd ed lo hi ot =
           (if valid = []
            then ((None, Some (''No options found for '' @ t @ '' within specified date range'')),
                  h @ [OptionsRequest t])
            else (aggregate t lo hi (fst (fetch_chains E (h @ [OptionsRequest t]) t valid ot)) valid,
                  snd (fetch_chains E (h @ [OptionsRequest t]) t valid ot)))"
  using assms
  by (simp add: get_filtered_options_def get_filtered_options_try_def split: prod.split)

text \<open>
  Claim C2. When every date that is given parses and every expiration the client lists
  parses, the loop selects exactly the expirations \<open>x\<close> with \<open>start \<le> x\<close> (if a start
  is given) and \<open>x \<le> end\<close> (if an end is given), compared as dates, in the order of
  the client's list; and when the client's list is not empty, the requests of the call are
  the listing followed by one chain request for each selected expiration, in that order.
  From \<^verbatim>\<open>["2025-01-17","2025-02-21","2025-03-21"]\<close> with start \<^verbatim>\<open>2025-02-01\<close> and end
  \<^verbatim>\<open>2025-03-31\<close> the selection is \<^verbatim>\<open>["2025-02-21","2025-03-21"]\<close>.
\<close>

theorem expirations_selected:
  assumes "validate_dates start_date end_date = None"
    and "\<forall>x\<in>set expirations. strptime x \<noteq> None"
  shows
    "(let selected =
        filter (\<lambda>x. (truthy start_date \<longrightarrow> the (strptime (the start_date)) \<le> the (strptime x)) \<and>
                     (truthy end_date \<longrightarrow> the (strptime x) \<le> the (strptime (the end_date))))
          expirations
      in select_expirations E (date_obj start_date) (date_obj end_date) expirations = Inr selected \<and>
         (options E h ticker = Inr expirations \<and> expirations \<noteq> [] \<longrightarrow>
            snd (get_filtered_options E h ticker start_date end_date
                   strike_lower strike_upper option_type) =
              h @ OptionsRequest ticker # map (ChainRequest ticker) selected)) \<and>
     select_expirations E (date_obj (Some ''2025-02-01'')) (date_obj (Some ''2025-03-31''))
        [''2025-01-17'', ''2025-02-21'', ''2025-03-21''] = Inr [''2025-02-21'', ''2025-03-21'']"
proof -
  define selected where "selected =
        filter (\<lambda>x. (truthy start_date \<longrightarrow> the (strptime (the start_date)) \<le> the (strptime x)) \<and>
                     (truthy end_date \<longrightarrow> the (strptime x) \<le> the (strptime (the end_date))))
          expirations"
  have sel: "select_expirations E (date_obj start_date) (date_obj end_date) expirations = Inr selected"
    unfolding selected_def
    using assms by (simp add: select_expirations_filter in_range_date_obj)
  have nonempty: "\<forall>x\<in>set selected. x \<noteq> []"
    using assms(2) strptime_nonempty by (auto simp: selected_def)
  have run: "snd (get_filtered_options E h ticker start_date end_date
                   strike_lower strike_upper option_type) =
              h @ OptionsRequest ticker # map (ChainRequest ticker) selected"
    if "options E h ticker = Inr expirations" and "expirations \<noteq> []"
    using get_filtered_options_selected [OF assms(1) that sel] nonempty
    by (simp add: fetch_chains_history)
  have scenario: "select_expirations E (date_obj (Some ''2025-02-01'')) (date_obj (Some ''2025-03-31''))
        [''2025-01-17'', ''2025-02-21'', ''2025-03-21''] = Inr [''2025-02-21'', ''2025-03-21'']"
    by code_simp
  show ?thesis
    using sel run scenario by (simp add: selected_def Let_def)
qed

theorem expirations_selected_witness:
  "validate_dates (Some ''2025-02-01'') (Some ''2025-03-31'') = None \<and>
   strptime ''2025-01-17'' \<noteq> None \<and> strptime ''2025-02-21'' \<noteq> None \<and>
   strptime ''2025-03-21'' \<noteq> None \<and>
   select_expirations sample_env (date_obj (Some ''2025-02-01'')) (date_obj (Some ''2025-03-31''))
     [''2025-01-17'', ''2025-02-21'', ''2025-03-21''] = Inr [''2025-02-21'', ''2025-03-21''] \<and>
   snd (get_filtered_options sample_env [] ''ACME'' (Some ''2025-02-01'') (Some ''2025-03-31'')
          None None None) =
     [OptionsRequest ''ACME'', ChainRequest ''ACME'' ''2025-02-21'',
      ChainRequest ''ACME'' ''2025-03-21'']"
proof -
  have v: "validate_dates (Some ''2025-02-01'') (Some ''2025-03-31'') = None"
    by (simp add: validate_dates_def strptime_feb01 strptime_mar31)
  have p: "\<forall>x\<in>set [''2025-01-17'', ''2025-02-21'', ''2025-03-21'']. strptime x \<noteq> None"
    by (simp add: strptime_jan17 strptime_feb21 strptime_mar21)
  show ?thesis
    using expirations_selected [OF v p, of sample_env "[]" "''ACME''" None None None] v p
    by (simp add: Let_def sample_options strptime_jan17 strptime_feb21 strptime_mar21
          strptime_feb01 strptime_mar31)
qed




subsection \<open>Strike bounds and order of the result\<close>

lemma sample_run:
  "get_filtered_options sample_env [] ''ACME'' (Some ''2025-02-01'') (Some ''2025-03-31'')
      None None None =
   ((Some [(mk_row ''c2'' 125 9 1)\<lparr>expiryDate := Some ''2025-02-21''\<rparr>,
           (mk_row ''c1'' 100 5 7)\<lparr>expiryDate := Some ''2025-02-21''\<rparr>,
           (mk_row ''p1'' 90 5 7)\<lparr>expiryDate := Some ''2025-02-21''\<rparr>], None),
    [OptionsRequest ''ACME'', ChainRequest ''ACME'' ''2025-02-21'',
     ChainRequest ''ACME'' ''2025-03-21''])"
  by code_simp












subsection \<open>Failures as values\<close>

lemma get_options_chain_shape:
  "(\<exists>rows. fst (get_options_chain E h t x ot) = (Some rows, None)) \<or>
   (\<exists>msg. fst (get_options_chain E h t x ot) = (None, Some msg))"
  by (simp add: get_options_chain_cases split: sum.split)

lemma aggregate_shape:
  "aggregate t lo hi rs vs = (a, b) \<Longrightarrow> (a = None) = (b \<noteq> None)"
  by (auto simp: aggregate_def Let_def split: if_splits)

lemma get_filtered_options_try_shape:
  assumes "get_filtered_options_try E h t sd ed lo hi ot = (Inr (a, b), h')"
  shows "(a = None) = (b \<noteq> None)"
proof (cases "validate_dates sd ed")
  case (Some msg)
  have "get_filtered_options_try E h t sd ed lo hi ot = (Inr (None, Some msg), h)"
    by (simp add: get_filtered_options_try_def Some)
  with assms have "a = None" and "b = Some msg" by simp_all
  then show ?thesis by simp
next
  case None
  with assms show ?thesis
    by (auto simp: get_filtered_options_try_def
             split: sum.splits if_splits prod.splits dest: aggregate_shape)
qed

lemma get_filtered_options_shape:
  "(fst (fst (get_filtered_options E h t sd ed lo hi ot)) = None) =
   (snd (fst (get_filtered_options E h t sd ed lo hi ot)) \<noteq> None)"
proof (cases "get_filtered_options_try E h t sd ed lo hi ot")
  case (Pair r h')
  show ?thesis
  proof (cases r)
    case (Inl e)
    with Pair show ?thesis by (simp add: get_filtered_options_def)
  next
    case (Inr p)
    obtain a b where p: "p = (a, b)" by (cases p)
    from Pair Inr p have "(a = None) = (b \<noteq> None)"
      using get_filtered_options_try_shape by blast
    with Pair Inr p show ?thesis by (simp add: get_filtered_options_def)
  qed
qed

text \<open>
  Claim C6. For every input, \<^verbatim>\<open>get_options_chain\<close> and \<^verbatim>\<open>get_filtered_options\<close>
  return a pair in which exactly one of the data and the message is present, and an
  exception raised inside the \<^verbatim>\<open>try\<close> block of either function (a failed client call, a
  listed expiration that does not parse) is returned as the message of a pair without
  data: the text of the exception for \<^verbatim>\<open>get_options_chain\<close>, the text after
  \<^verbatim>\<open>Failed to retrieve options data: \<close> for \<^verbatim>\<open>get_filtered_options\<close>.
\<close>

theorem failures_are_values:
  "((fst (fst (get_options_chain E h ticker expiry option_type)) = None) =
      (snd (fst (get_options_chain E h ticker expiry option_type)) \<noteq> None)) \<and>
   ((fst (fst (get_filtered_options E h ticker start_date end_date
                 strike_lower strike_upper option_type)) = None) =
      (snd (fst (get_filtered_options E h ticker start_date end_date
                   strike_lower strike_upper option_type)) \<noteq> None)) \<and>
   (fst (get_options_chain_try E h ticker expiry option_type) = Inl e \<longrightarrow>
      fst (get_options_chain E h ticker expiry option_type) = (None, Some e)) \<and>
   (fst (get_filtered_options_try E h ticker start_date end_date
           strike_lower strike_upper option_type) = Inl e \<longrightarrow>
      fst (get_filtered_options E h ticker start_date end_date
             strike_lower strike_upper option_type) =
        (None, Some (''Failed to retrieve options data: '' @ e)))"
proof -
  have a: "(fst (fst (get_options_chain E h ticker expiry option_type)) = None) =
      (snd (fst (get_options_chain E h ticker expiry option_type)) \<noteq> None)"
    using get_options_chain_shape [of E h ticker expiry option_type] by auto
  have b: "(fst (fst (get_filtered_options E h ticker start_date end_date
                 strike_lower strike_upper option_type)) = None) =
      (snd (fst (get_filtered_options E h ticker start_date end_date
                   strike_lower strike_upper option_type)) \<noteq> None)"
    by (rule get_filtered_options_shape)
  have c: "fst (get_options_chain E h ticker expiry option_type) = (None, Some e)"
    if "fst (get_options_chain_try E h ticker expiry option_type) = Inl e"
    using that
    by (cases "get_options_chain_try E h ticker expiry option_type")
       (simp add: get_options_chain_def)
  have d: "fst (get_filtered_options E h ticker start_date end_date
             strike_lower strike_upper option_type) =
        (None, Some (''Failed to retrieve options data: '' @ e))"
    if "fst (get_filtered_options_try E h ticker start_date end_date
           strike_lower strike_upper option_type) = Inl e"
    using that
    by (cases "get_filtered_options_try E h ticker start_date end_date
                 strike_lower strike_upper option_type")
       (simp add: get_filtered_options_def)
  show ?thesis using a b c d by blast
qed

lemma sample_chain_try_fails:
  "fst (get_options_chain_try sample_env [] ''ACME'' (Some ''2025-03-21'') None) =
     Inl ''chain unavailable''"
  by code_simp

lemma sample_options_try_fails:
  "fst (get_filtered_options_try sample_env [] ''XX'' None None None None None) =
     Inl ''no such ticker''"
  by code_simp

theorem failures_are_values_witness:
  "fst (get_options_chain sample_env [] ''ACME'' (Some ''2025-03-21'') None) =
     (None, Some ''chain unavailable'') \<and>
   fst (get_filtered_options sample_env [] ''XX'' None None None None None) =
     (None, Some ''Failed to retrieve options data: no such ticker'')"
  using failures_are_values [of sample_env "[]" "''ACME''" "Some ''2025-03-21''" None
          None None None None "''chain unavailable''"]
        failures_are_values [of sample_env "[]" "''XX''" "Some ''2025-03-21''" None
          None None None None "''no such ticker''"]
  by (simp add: sample_chain_try_fails sample_options_try_fails)

subsection \<open>Merging the fetched chains\<close>

lemma collect_chains_rows:
  "(x \<in> set (concat (collect_chains ps))) =
   (\<exists>p\<in>set ps. \<not> truthy (snd (fst p)) \<and>
       (\<exists>c. fst (fst p) = Some c \<and> x \<in> set (assign_expiryDate (snd p) c)))"
proof (induction ps rule: collect_chains.induct)
  case 1
  then show ?case by simp
next
  case (2 c error expiry rest)
  then show ?case
    by (cases c) auto
qed

lemma collect_chains_empty:
  "(collect_chains ps = []) = (\<forall>p\<in>set ps. truthy (snd (fst p)) \<or> fst (fst p) = None)"
proof (induction ps rule: collect_chains.induct)
  case 1
  then show ?case by simp
next
  case (2 c error expiry rest)
  then show ?case
    by (cases c) auto
qed

lemma fetch_chains_shape:
  "p \<in> set (fst (fetch_chains E h t xs ot)) \<Longrightarrow>
   (\<exists>rows. p = (Some rows, None)) \<or> (\<exists>msg. p = (None, Some msg))"
proof (induction xs arbitrary: h)
  case Nil
  then show ?case by simp
next
  case (Cons x xs)
  then show ?case
    using get_options_chain_shape [of E h t "Some x" ot]
    by (simp only: fetch_chains_Cons fst_conv set_simps insert_iff) blast
qed

lemma strike_mask_assign:
  "strike_mask lo hi (r\<lparr>expiryDate := e\<rparr>) = strike_mask lo hi r"
  by (simp add: strike_mask_def split: option.split)

lemma in_assign_expiryDate:
  "(x \<in> set (assign_expiryDate e c) \<and> strike_mask lo hi x) =
   (\<exists>r. r \<in> set c \<and> x = r\<lparr>expiryDate := Some e\<rparr> \<and> strike_mask lo hi r)"
  unfolding assign_expiryDate_def set_map image_iff
  using strike_mask_assign by blast

lemma in_zip_nth:
  assumes "length xs = length ys"
  shows "(p \<in> set (zip xs ys)) = (\<exists>i<length ys. p = (xs ! i, ys ! i))"
  using assms by (cases p) (auto simp: in_set_zip)

lemma Bex_zip_nth:
  assumes "length xs = length ys"
  shows "(\<exists>p\<in>set (zip xs ys). P p) = (\<exists>i<length ys. P (xs ! i, ys ! i))"
  unfolding Bex_def in_zip_nth [OF assms] by blast

lemma Ball_zip_nth:
  assumes "length xs = length ys"
  shows "(\<forall>p\<in>set (zip xs ys). P p) = (\<forall>i<length ys. P (xs ! i, ys ! i))"
  unfolding Ball_def in_zip_nth [OF assms] by blast

text \<open>
  Claim C1. Take a call that reaches the fetches: the dates are valid, the client has
  listed expirations, the loop has selected the non-empty list \<open>valid\<close>, and the fetches
  have produced \<open>results\<close>, one outcome per selected expiration. If at least one outcome
  carries a chain, the call returns a frame and no message, and the rows of the frame are
  exactly the rows \<open>r\<close> of the chains fetched successfully, within the strike bounds, each
  with \<^verbatim>\<open>expiryDate\<close> set to the expiration its chain was fetched for: a failed fetch
  contributes no row and takes none away. If no outcome carries a chain, the call returns
  no data and the message \<^verbatim>\<open>No options found for <ticker> matching criteria\<close>.
\<close>

theorem partial_failure_tolerated:
  assumes "validate_dates start_date end_date = None"
    and "options E h ticker = Inr expirations"
    and "select_expirations E (date_obj start_date) (date_obj end_date) expirations = Inr valid"
    and "valid \<noteq> []"
    and "fetch_chains E (h @ [OptionsRequest ticker]) ticker valid option_type = (results, h')"
  shows
    "((\<exists>i<length valid. fst (results ! i) \<noteq> None) \<longrightarrow>
        (\<exists>df. get_filtered_options E h ticker start_date end_date
                 strike_lower strike_upper option_type = ((Some df, None), h') \<and>
              set df =
                {r\<lparr>expiryDate := Some (valid ! i)\<rparr> | i rows r.
                   i < length valid \<and> results ! i = (Some rows, None) \<and> r \<in> set rows \<and>
                   (case strike_lower of None \<Rightarrow> True | Some lo \<Rightarrow> lo \<le> strike r) \<and>
                   (case strike_upper of None \<Rightarrow> True | Some hi \<Rightarrow> strike r \<le> hi)})) \<and>
     ((\<forall>i<length valid. fst (results ! i) = None) \<longrightarrow>
        get_filtered_options E h ticker start_date end_date
          strike_lower strike_upper option_type =
          ((None, Some (''No options found for '' @ ticker @ '' matching criteria'')), h'))"
proof -
  have ne: "expirations \<noteq> []"
    using assms(3,4) by (cases expirations) auto
  have len: "length results = length valid"
    using fetch_chains_length [of E "h @ [OptionsRequest ticker]" ticker valid option_type]
      assms(5) by simp
  have shape: "(\<exists>rows. results ! i = (Some rows, None)) \<or> (\<exists>msg. results ! i = (None, Some msg))"
    if "i < length valid" for i
    using fetch_chains_shape [of "results ! i" E "h @ [OptionsRequest ticker]" ticker valid
            option_type] assms(5) that len by simp
  have run: "get_filtered_options E h ticker start_date end_date
               strike_lower strike_upper option_type =
             (aggregate ticker strike_lower strike_upper results valid, h')"
    using get_filtered_options_selected [OF assms(1,2) ne assms(3)] assms(4,5) by simp
  note zip = in_zip_nth [OF len]
  let ?chains = "collect_chains (zip results valid)"
  have all_fail: "?chains = []" if "\<forall>i<length valid. fst (results ! i) = None"
    unfolding collect_chains_empty Ball_zip_nth [OF len] using that by simp
  have some_ok: "?chains \<noteq> []" if "\<exists>i<length valid. fst (results ! i) \<noteq> None"
  proof -
    from that obtain i where i: "i < length valid" "fst (results ! i) \<noteq> None" by blast
    with shape [OF i(1)] obtain rows where r: "results ! i = (Some rows, None)" by auto
    have "(results ! i, valid ! i) \<in> set (zip results valid)"
      unfolding zip using i(1) by blast
    with r show ?thesis
      unfolding collect_chains_empty by force
  qed
  have rows: "set (sort_values (apply_strike_filters strike_lower strike_upper (concat ?chains))) =
                {r\<lparr>expiryDate := Some (valid ! i)\<rparr> | i rows r.
                   i < length valid \<and> results ! i = (Some rows, None) \<and> r \<in> set rows \<and>
                   (case strike_lower of None \<Rightarrow> True | Some lo \<Rightarrow> lo \<le> strike r) \<and>
                   (case strike_upper of None \<Rightarrow> True | Some hi \<Rightarrow> strike r \<le> hi)}"
    (is "?L = ?R")
  proof (rule set_eqI)
    fix x
    have "x \<in> ?L \<longleftrightarrow> x \<in> set (concat ?chains) \<and> strike_mask strike_lower strike_upper x"
      by (simp add: sort_values_def apply_strike_filters_def)
    also have "\<dots> \<longleftrightarrow> (\<exists>i<length valid. \<not> truthy (snd (results ! i)) \<and>
                  (\<exists>c. fst (results ! i) = Some c \<and>
                       x \<in> set (assign_expiryDate (valid ! i) c) \<and>
                       strike_mask strike_lower strike_upper x))"
    proof -
      have "x \<in> set (concat ?chains) \<longleftrightarrow>
            (\<exists>i<length valid. \<not> truthy (snd (results ! i)) \<and>
                  (\<exists>c. fst (results ! i) = Some c \<and>
                       x \<in> set (assign_expiryDate (valid ! i) c)))"
        unfolding collect_chains_rows Bex_zip_nth [OF len] by simp
      then show ?thesis by blast
    qed
    also have "\<dots> \<longleftrightarrow> (\<exists>i<length valid. \<exists>c. results ! i = (Some c, None) \<and>
                       x \<in> set (assign_expiryDate (valid ! i) c) \<and>
                       strike_mask strike_lower strike_upper x)"
      using shape by (metis fst_conv snd_conv truthy.simps(1) option.distinct(1))
    also have "\<dots> \<longleftrightarrow> (\<exists>i<length valid. \<exists>c. results ! i = (Some c, None) \<and>
                       (\<exists>r. r \<in> set c \<and> x = r\<lparr>expiryDate := Some (valid ! i)\<rparr> \<and>
                            strike_mask strike_lower strike_upper r))"
      unfolding in_assign_expiryDate ..
    also have "\<dots> \<longleftrightarrow> x \<in> ?R"
      unfolding strike_mask_def by blast
    finally show "x \<in> ?L \<longleftrightarrow> x \<in> ?R" .
  qed
  show ?thesis
    using run all_fail some_ok rows by (simp add: aggregate_def Let_def)
qed


lemma sample_fetch_two:
  "fetch_chains sample_env ([] @ [OptionsRequest ''ACME'']) ''ACME''
     [''2025-02-21'', ''2025-03-21''] None =
   ([(Some [mk_row ''c1'' 100 5 7, mk_row ''c2'' 125 9 1, mk_row ''p1'' 90 5 7], None),
     (None, Some ''chain unavailable'')],
    [OptionsRequest ''ACME'', ChainRequest ''ACME'' ''2025-02-21'',
     ChainRequest ''ACME'' ''2025-03-21''])"
  by code_simp

lemma sample_fetch_one:
  "fetch_chains sample_env ([] @ [OptionsRequest ''ACME'']) ''ACME'' [''2025-03-21''] None =
   ([(None, Some ''chain unavailable'')],
    [OptionsRequest ''ACME'', ChainRequest ''ACME'' ''2025-03-21''])"
  by code_simp

lemma sample_select_two:
  "select_expirations sample_env (date_obj (Some ''2025-02-01'')) (date_obj (Some ''2025-03-31''))
     [''2025-01-17'', ''2025-02-21'', ''2025-03-21''] = Inr [''2025-02-21'', ''2025-03-21'']"
  by code_simp

lemma sample_select_one:
  "select_expirations sample_env (date_obj (Some ''2025-03-01'')) (date_obj None)
     [''2025-01-17'', ''2025-02-21'', ''2025-03-21''] = Inr [''2025-03-21'']"
  by code_simp

lemma sample_valid_two: "validate_dates (Some ''2025-02-01'') (Some ''2025-03-31'') = None"
  by code_simp

lemma sample_valid_one: "validate_dates (Some ''2025-03-01'') None = None"
  by code_simp

theorem partial_failure_tolerated_witness:
  "get_filtered_options sample_env [] ''ACME'' (Some ''2025-02-01'') (Some ''2025-03-31'')
      None None None =
   ((Some [(mk_row ''c2'' 125 9 1)\<lparr>expiryDate := Some ''2025-02-21''\<rparr>,
           (mk_row ''c1'' 100 5 7)\<lparr>expiryDate := Some ''2025-02-21''\<rparr>,
           (mk_row ''p1'' 90 5 7)\<lparr>expiryDate := Some ''2025-02-21''\<rparr>], None),
    [OptionsRequest ''ACME'', ChainRequest ''ACME'' ''2025-02-21'',
     ChainRequest ''ACME'' ''2025-03-21'']) \<and>
   get_filtered_options sample_env [] ''ACME'' (Some ''2025-03-01'') None None None None =
   ((None, Some ''No options found for ACME matching criteria''),
    [OptionsRequest ''ACME'', ChainRequest ''ACME'' ''2025-03-21''])"
proof -
  have two: "[''2025-02-21'', ''2025-03-21''] \<noteq> []" and one: "[''2025-03-21''] \<noteq> []"
    by simp_all
  note t2 = partial_failure_tolerated [OF sample_valid_two sample_options sample_select_two two
              sample_fetch_two, of None None]
  note t1 = partial_failure_tolerated [OF sample_valid_one sample_options sample_select_one one
              sample_fetch_one, of None None]
  from t1 have r1:
    "get_filtered_options sample_env [] ''ACME'' (Some ''2025-03-01'') None None None None =
       ((None, Some ''No options found for ACME matching criteria''),
        [OptionsRequest ''ACME'', ChainRequest ''ACME'' ''2025-03-21''])"
    by simp
  from t2 have r2:
    "\<exists>df. get_filtered_options sample_env [] ''ACME'' (Some ''2025-02-01'') (Some ''2025-03-31'')
             None None None =
           ((Some df, None),
            [OptionsRequest ''ACME'', ChainRequest ''ACME'' ''2025-02-21'',
             ChainRequest ''ACME'' ''2025-03-21''])"
    by auto
  from r1 r2 show ?thesis
    by (simp add: sample_run)
qed

end
